theory Spec2Isabelle
  imports Main
begin

section \<open>Python values, exceptions and strings\<close>

text \<open>
  The values \<open>json.load\<close> and the image service hand to the program. \<open>self.api_key\<close> is
  dynamically typed (it holds whatever the configuration file stores under \<open>api_key\<close>), so it
  is a \<open>pyval\<close>; a dict is its list of items. JSON floats are not represented.
\<close>

datatype pyval =
    PyNone
  | PyBool bool
  | PyInt int
  | PyStr string
  | PyList "pyval list"
  | PyDict "(string \<times> pyval) list"

text \<open>Python's truth value, as \<open>not x\<close> and \<open>if x\<close> test it.\<close>

fun truthy :: "pyval \<Rightarrow> bool" where
  "truthy PyNone = False"
| "truthy (PyBool b) = b"
| "truthy (PyInt i) = (i \<noteq> 0)"
| "truthy (PyStr s) = (s \<noteq> [])"
| "truthy (PyList xs) = (xs \<noteq> [])"
| "truthy (PyDict kvs) = (kvs \<noteq> [])"

text \<open>
  Exceptions. \<open>KeyError\<close>, \<open>IndexError\<close> and \<open>AttributeError\<close> are the ones the source's own
  expressions raise (\<open>prompts[option]\<close>, \<open>choices[0]\<close>, \<open>content.strip()\<close> on \<open>None\<close>,
  \<open>config.get\<close> on a value that is no dict); \<open>FileNotFoundError\<close> and \<open>JSONDecodeError\<close> come
  from reading the configuration file; \<open>Raised msg\<close> is any other \<open>Exception\<close> of a library
  call (language detector, HTTP clients, clipboard), with its message.
\<close>

datatype error =
    KeyError string
  | IndexError
  | AttributeError
  | FileNotFoundError
  | JSONDecodeError
  | Raised string

text \<open>
  A \<open>str\<close> is a \<open>string\<close>, one \<open>char\<close> per code point, which covers the texts whose
  code points are below 256. \<open>str.strip()\<close> removes, at both ends, the characters for
  which \<open>str.isspace\<close> holds: in this range the code points 9 to 13, 28 to 32, 133 and
  160.
\<close>

definition isspace :: "char \<Rightarrow> bool" where
  "isspace c =
     (let n = (of_char c :: nat)
      in (9 \<le> n \<and> n \<le> 13) \<or> (28 \<le> n \<and> n \<le> 32) \<or> n = 133 \<or> n = 160)"

definition strip :: "string \<Rightarrow> string" where
  "strip s = rev (dropWhile isspace (rev (dropWhile isspace s)))"

section \<open>Language detection\<close>

text \<open>
  \<open>detect_language(text)\<close>. Its first argument is the third-party \<open>langdetect.detect\<close>,
  which returns an ISO code or raises; the bare \<open>except\<close> turns every raise into
  \<open>"Unknown"\<close>.
\<close>

definition detect_language :: "(string \<Rightarrow> error + string) \<Rightarrow> string \<Rightarrow> string" where
  "detect_language detect text =
     (case detect text of
        Inl e \<Rightarrow> ''Unknown''
      | Inr lang \<Rightarrow>
          if lang = ''pt'' then ''Portuguese (European)''
          else if lang = ''en'' then ''English''
          else ''Other ('' @ lang @ '')'')"

section \<open>The prompt table\<close>

definition base_instruction :: string where
  "base_instruction =
     ''\<newline>'' @
     ''        Process the following text according to the given instructions. \<newline>'' @
     ''        IMPORTANT: \<newline>'' @
     ''        1. Always respond in the EXACT SAME LANGUAGE as the input text.\<newline>'' @
     ''        2. If the input is in Portuguese, use European Portuguese (from Portugal), not Brazilian Portuguese.\<newline>'' @
     ''        3. DO NOT translate the text to any other language.\<newline>'' @
     ''        4. Maintain the original language, dialect, and style of the input text in your response.\<newline>'' @
     ''        ''"

text \<open>
  What follows \<open>{base_instruction}\<close> in each entry of the \<open>prompts\<close> dict, in the dict's
  order.
\<close>

definition instructions :: "(string \<times> string) list" where
  "instructions =
    [(''Proofread'',
      '' Proofread the text, focusing on grammar, spelling, punctuation, style, and clarity. Return a corrected version.''),
     (''Rewrite'',
      '' Rewrite the text, focusing on clarity, style, and coherence. Maintain the original meaning and tone.''),
     (''Friendly'',
      '' Rewrite the text to make it friendlier. Focus on a warm, approachable, and conversational tone.''),
     (''Professional'',
      '' Rewrite the text to make it more professional. Use formal, respectful language and improve clarity and structure.''),
     (''Concise'',
      '' Rewrite the text to make it more concise. Focus on clarity and brevity while maintaining the original meaning.''),
     (''Summary'',
      '' Summarize the text, focusing on key points and main ideas. Ensure the summary is clear and concise.''),
     (''Key Points'',
      '' Extract the key points from the text. Present them in a bulleted or numbered list.''),
     (''Table'',
      '' Create a table from the text. Organize the information in a clear, tabular format.\<newline>'' @
      ''            Use markdown-style table formatting. Follow these guidelines:\<newline>'' @
      ''            1. Use '|' to separate columns.\<newline>'' @
      ''            2. Use a row of '---' or ':---:' (for center alignment) or '---:' (for right alignment) to separate the header from the body.\<newline>'' @
      ''            3. Ensure proper alignment of the content for readability.\<newline>'' @
      ''            4. If the table is wide, consider using only essential columns to fit the data.\<newline>'' @
      ''            Example format:\<newline>'' @
      ''            | Header1 | Header2 | Header3 |\<newline>'' @
      ''            |---------|:-------:|--------:|\<newline>'' @
      ''            | Left    | Center  |   Right |\<newline>'' @
      ''            | Data    | Data    |    Data |\<newline>'' @
      ''            ''),
     (''List'',
      '' Transform the text into a list. Break down the information into clear, concise points. Present the list in either bulleted or numbered form.'')]"

text \<open>The dict \<open>prompts\<close>: every entry is the f-string \<open>{base_instruction}\<close> and its text.\<close>

definition prompts :: "(string \<times> string) list" where
  "prompts = map (\<lambda>(option, text). (option, base_instruction @ text)) instructions"

text \<open>The option names the nine menu handlers \<open>on_proofread\<close> ... \<open>on_list\<close> pass on.\<close>

definition operations :: "string list" where
  "operations =
     [''Proofread'', ''Rewrite'', ''Friendly'', ''Professional'', ''Concise'', ''Summary'',
      ''Key Points'', ''Table'', ''List'']"

section \<open>The menu-bar application\<close>

text \<open>
  The request \<open>client.chat.completions.create\<close> receives: the model name and the messages
  as (role, content) pairs. The response: its choices, each with the content of its message,
  which the client library types as an optional string.
\<close>

datatype chat_request = ChatRequest string "(string \<times> string) list"

datatype choice = Choice (content: "string option")

datatype response = Response (choices: "choice list")

text \<open>What a result dialog's text box is given: \<open>setHtml\<close> or \<open>setPlainText\<close>.\<close>

datatype display = Html string | PlainText string

text \<open>
  What the program does to the outside, in order: a \<open>QMessageBox.critical\<close> with title and
  message, a call of \<open>chat.completions.create\<close> with the client's key, a
  \<open>pyperclip.copy\<close> that succeeds, the \<open>close()\<close> of the current dialog, the \<open>exec()\<close> of a result
  dialog, and the \<open>QInputDialog.getText\<close> of start-up. Console output (\<open>print\<close>,
  \<open>logging\<close>) is left out.
\<close>

datatype event =
    Critical string string
  | ChatCompletionsCreate pyval chat_request
  | Copy string
  | CloseDialog
  | ExecResultDialog display
  | GetText

text \<open>The configuration file's content, as \<open>json.load\<close> reads it.\<close>

datatype file_content = NotJson | Json pyval

text \<open>
  The application object and the part of the machine it touches: \<open>self.api_key\<close>, whether
  \<open>self.current_dialog\<close> is set, the clipboard, \<open>config.json\<close> (\<open>None\<close> when there is no
  such file), the events so far, and how many times the language detector has been called.
\<close>

record app =
  api_key :: pyval
  current_dialog :: bool
  clipboard :: string
  config_file :: "file_content option"
  events :: "event list"
  detect_calls :: nat

text \<open>
  The libraries the program calls. The language detector is not deterministic, so its answer
  may depend on how many calls came before; \<open>paste_error\<close> and \<open>copy_error\<close> are what
  \<open>pyperclip.paste\<close> and \<open>pyperclip.copy\<close> raise, if they raise; \<open>OpenAI\<close> is
  the client's constructor (\<open>None\<close> when it raises nothing); \<open>str_of\<close> is \<open>str(e)\<close>;
  \<open>markdown\<close> is \<open>markdown.markdown\<close> with the tables extension, which returns HTML or raises;
  \<open>get_text\<close> is what the user answers to \<open>QInputDialog.getText\<close>, the text and the
  \<open>ok\<close> flag.
\<close>

record env =
  detect :: "nat \<Rightarrow> string \<Rightarrow> error + string"
  paste_error :: "error option"
  copy_error :: "error option"
  OpenAI :: "pyval \<Rightarrow> error option"
  create :: "pyval \<Rightarrow> chat_request \<Rightarrow> error + response"
  str_of :: "error \<Rightarrow> string"
  markdown :: "string \<Rightarrow> error + string"
  get_text :: "string \<times> bool"

definition emit :: "event \<Rightarrow> app \<Rightarrow> app" where
  "emit e s = s\<lparr>events := events s @ [e]\<rparr>"

text \<open>One call of \<open>detect_language\<close> by the application: the label, and the call counted.\<close>

definition detect_language_call :: "env \<Rightarrow> string \<Rightarrow> app \<Rightarrow> string \<times> app" where
  "detect_language_call E text s =
     (detect_language (detect E (detect_calls s)) text, s\<lparr>detect_calls := Suc (detect_calls s)\<rparr>)"

definition show_error_message :: "string \<Rightarrow> string \<Rightarrow> app \<Rightarrow> app" where
  "show_error_message title message s = emit (Critical title message) s"

text \<open>
  \<open>pyperclip.copy(text)\<close>: it raises and leaves the clipboard as it is, or writes the
  clipboard.
\<close>

definition pyperclip_copy :: "env \<Rightarrow> string \<Rightarrow> app \<Rightarrow> error + app" where
  "pyperclip_copy E text s =
     (case copy_error E of
        Some e \<Rightarrow> Inl e
      | None \<Rightarrow> Inr (emit (Copy text) (s\<lparr>clipboard := text\<rparr>)))"

definition get_selected_text :: "env \<Rightarrow> app \<Rightarrow> string" where
  "get_selected_text E s = (case paste_error E of Some e \<Rightarrow> [] | None \<Rightarrow> clipboard s)"

definition system_instruction :: string where
  "system_instruction =
     ''You are a helpful assistant that processes text according to specific instructions. You MUST ALWAYS respond in the EXACT SAME LANGUAGE as the input text. Never translate or change the language.''"

text \<open>The f-string \<open>full_prompt\<close>, from the entry of \<open>prompts\<close> and the language label.\<close>

definition full_prompt :: "string \<Rightarrow> string \<Rightarrow> string \<Rightarrow> string" where
  "full_prompt prompt lang input_text =
     prompt @ ''\<newline>\<newline>Input text language: '' @ lang @ ''\<newline>\<newline>'' @ input_text"

text \<open>The arguments of \<open>client.chat.completions.create\<close>.\<close>

definition completion_request :: "string \<Rightarrow> chat_request" where
  "completion_request user_content =
     ChatRequest ''gpt-4o-mini'' [(''system'', system_instruction), (''user'', user_content)]"

text \<open>\<open>response.choices[0].message.content.strip()\<close>.\<close>

definition first_choice_text :: "response \<Rightarrow> error + string" where
  "first_choice_text response =
     (case choices response of
        [] \<Rightarrow> Inl IndexError
      | first # rest \<Rightarrow>
         (case content first of
            None \<Rightarrow> Inl AttributeError
          | Some text \<Rightarrow> Inr (strip text)))"

text \<open>
  \<open>call_openai_api(option, input_text)\<close>: the value returned or the exception raised, and
  the state after it. The f-string evaluates \<open>prompts[option]\<close> before
  \<open>detect_language(input_text)\<close>.
\<close>

definition call_openai_api :: "env \<Rightarrow> string \<Rightarrow> string \<Rightarrow> app \<Rightarrow> (error + string) \<times> app" where
  "call_openai_api E option input_text s =
     (case OpenAI E (api_key s) of
        Some e \<Rightarrow> (Inl e, s)
      | None \<Rightarrow>
         (case map_of prompts option of
            None \<Rightarrow> (Inl (KeyError option), s)
          | Some prompt \<Rightarrow>
             (let (lang, s1) = detect_language_call E input_text s;
                  request = completion_request (full_prompt prompt lang input_text);
                  s2 = emit (ChatCompletionsCreate (api_key s) request) s1
              in case create E (api_key s) request of
                   Inl e \<Rightarrow> (Inl e, s2)
                 | Inr response \<Rightarrow> (first_choice_text response, s2))))"

text \<open>
  What \<open>show_result_dialog\<close> puts into the dialog's text box, or the exception of
  \<open>markdown.markdown\<close>, which only the option \<open>Table\<close> calls.
\<close>

definition result_display :: "env \<Rightarrow> string \<Rightarrow> string \<Rightarrow> error + display" where
  "result_display E option processed_text =
     (if option = ''Table''
      then (case markdown E processed_text of
              Inl e \<Rightarrow> Inl e
            | Inr html_content \<Rightarrow>
                Inr (Html (''<h3>Option: '' @ option @ ''</h3>'' @ html_content @
                           ''<p>The processed text has been copied to your clipboard.</p>'')))
      else Inr (PlainText (''Option: '' @ option @ ''\<newline>\<newline>'' @ processed_text @
                  ''\<newline>\<newline>'' @
                  ''The processed text has been copied to your clipboard.'')))"

text \<open>
  \<open>show_result_dialog\<close>: the exception raised, if any, and the state. The current dialog
  is closed first; \<open>self.current_dialog\<close> is set just before \<open>exec()\<close>, so not when the
  text could not be built.
\<close>

definition show_result_dialog :: "env \<Rightarrow> string \<Rightarrow> string \<Rightarrow> string \<Rightarrow> app
    \<Rightarrow> error option \<times> app" where
  "show_result_dialog E option input_text processed_text s =
     (let s1 = (if current_dialog s then emit CloseDialog s else s)
      in case result_display E option processed_text of
           Inl e \<Rightarrow> (Some e, s1)
         | Inr shown \<Rightarrow> (None, emit (ExecResultDialog shown) (s1\<lparr>current_dialog := True\<rparr>)))"

text \<open>
  \<open>process_option(option, input_text)\<close>. It returns nothing and lets no \<open>Exception\<close>
  out, so its whole meaning is the state it leaves. Everything from the remote call to the
  result dialog is inside the \<open>try\<close>: whatever raises there ends in the \<open>except\<close> branch,
  \<open>report_exception\<close>.
\<close>

definition report_exception :: "env \<Rightarrow> error \<Rightarrow> app \<Rightarrow> app" where
  "report_exception E e s =
     show_error_message ''Error''
       (''An error occurred while processing the text: '' @ str_of E e) s"

definition process_option :: "env \<Rightarrow> string \<Rightarrow> string \<Rightarrow> app \<Rightarrow> app" where
  "process_option E option input_text s =
     (if input_text = [] then
        show_error_message ''No Text Selected''
          ''Please select some text before choosing an option.'' s
      else if \<not> truthy (api_key s) then
        show_error_message ''API Key Missing''
          ''Please provide an OpenAI API key to use this feature.'' s
      else
        (case call_openai_api E option input_text s of
           (Inl e, s1) \<Rightarrow> report_exception E e s1
         | (Inr processed_text, s1) \<Rightarrow>
             (let (input_lang, s2) = detect_language_call E input_text s1;
                  (output_lang, s3) = detect_language_call E processed_text s2;
                  s4 = (if input_lang \<noteq> output_lang
                        then show_error_message ''Language Mismatch''
                               (''The API response is in a different language. Input: '' @
                                input_lang @ '', Output: '' @ output_lang) s3
                        else s3)
              in case pyperclip_copy E processed_text s4 of
                   Inl e \<Rightarrow> report_exception E e s4
                 | Inr s5 \<Rightarrow>
                    (case show_result_dialog E option input_text processed_text s5 of
                       (Some e, s6) \<Rightarrow> report_exception E e s6
                     | (None, s6) \<Rightarrow> s6))))"

text \<open>A menu handler: \<open>self.process_option(name, self.get_selected_text())\<close>.\<close>

definition on_option :: "env \<Rightarrow> string \<Rightarrow> app \<Rightarrow> app" where
  "on_option E option s = process_option E option (get_selected_text E s) s"

section \<open>The configuration file\<close>

definition save_api_key :: "pyval \<Rightarrow> app \<Rightarrow> app" where
  "save_api_key key s = s\<lparr>config_file := Some (Json (PyDict [(''api_key'', key)]))\<rparr>"

text \<open>
  The \<open>try\<close> block of \<open>load_api_key\<close>: what \<open>self.api_key\<close> becomes. Only
  \<open>FileNotFoundError\<close> is caught; a file that is no JSON, or JSON that is no dict, raises
  out of \<open>load_api_key\<close>.
\<close>

definition read_api_key :: "file_content option \<Rightarrow> error + pyval" where
  "read_api_key file =
     (case file of
        None \<Rightarrow> Inr PyNone
      | Some NotJson \<Rightarrow> Inl JSONDecodeError
      | Some (Json config) \<Rightarrow>
         (case config of
            PyDict items \<Rightarrow>
              (case map_of items ''api_key'' of None \<Rightarrow> Inr PyNone | Some key \<Rightarrow> Inr key)
          | _ \<Rightarrow> Inl AttributeError))"

definition load_api_key :: "env \<Rightarrow> app \<Rightarrow> error + app" where
  "load_api_key E s =
     (case read_api_key (config_file s) of
        Inl e \<Rightarrow> Inl e
      | Inr key \<Rightarrow>
         (let s1 = s\<lparr>api_key := key\<rparr>
          in if \<not> truthy (api_key s1) then
               (let (text, ok) = get_text E;
                    s2 = (emit GetText s1)\<lparr>api_key := PyStr text\<rparr>
                in if ok \<and> truthy (api_key s2) then Inr (save_api_key (api_key s2) s2)
                   else Inr s2)
             else Inr s1))"

section \<open>Image generation\<close>

record job =
  model :: string
  prompt :: string
  aspect_ratio :: string
  disable_safety :: bool

text \<open>The signal a worker thread emits, once: \<open>finished\<close> or \<open>error\<close>.\<close>

datatype 'a signal = Finished 'a | Error string

text \<open>
  \<open>ImageGenerationThread.run\<close>. \<open>replicate_run\<close> is the service call, \<open>str\<close> is
  Python's \<open>str\<close> on the values the service returns, \<open>message\<close> is \<open>str(e)\<close>.
\<close>

definition normalize_output :: "(pyval \<Rightarrow> string) \<Rightarrow> pyval \<Rightarrow> string list" where
  "normalize_output str output =
     (case output of
        PyList urls \<Rightarrow> map str urls
      | _ \<Rightarrow> [str output])"

definition run :: "(job \<Rightarrow> error + pyval) \<Rightarrow> (pyval \<Rightarrow> string) \<Rightarrow> (error \<Rightarrow> string) \<Rightarrow> job
    \<Rightarrow> string list signal" where
  "run replicate_run str message j =
     (case replicate_run j of
        Inl e \<Rightarrow> Error (message e)
      | Inr output \<Rightarrow> Finished (normalize_output str output))"

text \<open>\<open>ImageDownloadThread.run\<close>: the bytes of the image, or the error's message.\<close>

definition download_run :: "(string \<Rightarrow> error + string) \<Rightarrow> (error \<Rightarrow> string) \<Rightarrow> string
    \<Rightarrow> string signal" where
  "download_run requests_get message url =
     (case requests_get url of
        Inl e \<Rightarrow> Error (message e)
      | Inr data \<Rightarrow> Finished data)"

text \<open>Python's \<open>str\<close> of a non-negative \<open>int\<close>, as the f-string prints \<open>len(output)\<close>.\<close>

fun decimal :: "nat \<Rightarrow> string" where
  "decimal n =
     (if n < 10 then [char_of (48 + n)]
      else decimal (n div 10) @ [char_of (48 + n mod 10)])"

text \<open>What the preview label shows.\<close>

datatype label = Cleared | LabelText string | Pixmap string

text \<open>
  The dialog's widgets and fields. \<open>thread\<close> and \<open>download_thread\<close> are the references to
  the last worker started; \<open>started\<close> counts the workers started, all of which run to their
  end.
\<close>

record image_generator_dialog =
  model_combo :: string
  prompt_input :: string
  aspect_input :: string
  safety_checker :: bool
  generate_button :: bool
  status_label :: string
  image_label :: label
  output_url :: string
  last_prompt :: string
  thread :: "job option"
  download_thread :: "string option"
  started :: nat

text \<open>\<open>__init__\<close>: \<open>initUI()\<close>, then \<open>self.last_prompt = ""\<close>.\<close>

definition init_dialog :: image_generator_dialog where
  "init_dialog =
     \<lparr>model_combo = ''black-forest-labs/flux-dev'', prompt_input = [], aspect_input = ''16:9'',
      safety_checker = False, generate_button = True, status_label = [], image_label = Cleared,
      output_url = [], last_prompt = [], thread = None, download_thread = None, started = 0\<rparr>"

definition generate_image :: "image_generator_dialog \<Rightarrow> image_generator_dialog" where
  "generate_image d =
     d\<lparr>status_label := ''Generating...'',
       generate_button := False,
       image_label := LabelText ''Generating image...'',
       thread := Some \<lparr>model = model_combo d, prompt = prompt_input d,
                        aspect_ratio = aspect_input d, disable_safety = safety_checker d\<rparr>,
       started := Suc (started d)\<rparr>"

text \<open>
  \<open>on_generation_finished(output)\<close>. The signal carries an \<open>object\<close>, so the slot tests it
  again: \<open>isinstance(output, list) and output\<close>.
\<close>

definition on_generation_finished :: "(pyval \<Rightarrow> string) \<Rightarrow> pyval \<Rightarrow> image_generator_dialog
    \<Rightarrow> image_generator_dialog" where
  "on_generation_finished str output d =
     (let d1 =
        (case output of
           PyList (first # rest) \<Rightarrow>
             d\<lparr>output_url := str first,
               status_label := ''Generated '' @ decimal (length (first # rest)) @
                               '' images. Displaying the first one.'',
               download_thread := Some (str first),
               started := Suc (started d)\<rparr>
         | _ \<Rightarrow> d\<lparr>status_label := ''No images were generated.''\<rparr>)
      in d1\<lparr>last_prompt := prompt_input d1, generate_button := True\<rparr>)"

definition display_image :: "string \<Rightarrow> image_generator_dialog \<Rightarrow> image_generator_dialog" where
  "display_image image_data d =
     d\<lparr>image_label := Pixmap image_data,
       status_label := ''Image generated and displayed successfully.''\<rparr>"

definition on_generation_error :: "string \<Rightarrow> image_generator_dialog \<Rightarrow> image_generator_dialog" where
  "on_generation_error error_msg d =
     d\<lparr>status_label := ''Error generating image: '' @ error_msg,
       generate_button := True,
       image_label := LabelText ''Error generating image''\<rparr>"

text \<open>The slot connected to the download thread's \<open>error\<close> signal.\<close>

definition on_preview_error :: "string \<Rightarrow> image_generator_dialog \<Rightarrow> image_generator_dialog" where
  "on_preview_error e d = d\<lparr>status_label := ''Error loading preview: '' @ e\<rparr>"

definition use_last_prompt :: "image_generator_dialog \<Rightarrow> image_generator_dialog" where
  "use_last_prompt d =
     (if last_prompt d \<noteq> [] then d\<lparr>prompt_input := last_prompt d\<rparr>
      else d\<lparr>status_label := ''No previous prompt available.''\<rparr>)"

text \<open>
  \<open>download_image\<close>. \<open>requests_get\<close> answers with the image or a \<open>RequestException\<close>;
  \<open>file_name\<close> is what the save dialog returns, empty when cancelled. Writing the file
  changes nothing in the dialog.
\<close>

definition download_image :: "(string \<Rightarrow> error + string) \<Rightarrow> (error \<Rightarrow> string) \<Rightarrow> string
    \<Rightarrow> image_generator_dialog \<Rightarrow> image_generator_dialog" where
  "download_image requests_get message file_name d =
     (if output_url d = [] then
        d\<lparr>status_label := ''No image URL available. Generate an image first.''\<rparr>
      else
        (case requests_get (output_url d) of
           Inl e \<Rightarrow> d\<lparr>status_label := ''Error downloading image: '' @ message e\<rparr>
         | Inr data \<Rightarrow>
             if file_name \<noteq> [] then
               d\<lparr>status_label := ''Image downloaded successfully: '' @ file_name\<rparr>
             else d\<lparr>status_label := ''Download cancelled.''\<rparr>))"

text \<open>
  Everything that can happen to an open dialog: the user edits an input widget, clicks a
  button, resizes the window, or a worker's signal arrives. Closing and resizing change
  none of the fields above (the pixmap is only scaled again).
\<close>

datatype dialog_event =
    SelectModel string
  | EditPrompt string
  | EditAspect string
  | ToggleSafety bool
  | ClickGenerate
  | ClickUseLastPrompt
  | ClickDownload string
  | GenerationFinished pyval
  | GenerationError string
  | DownloadFinished string
  | DownloadError string
  | ClickClose
  | Resize

fun handle :: "(string \<Rightarrow> error + string) \<Rightarrow> (pyval \<Rightarrow> string) \<Rightarrow> (error \<Rightarrow> string)
    \<Rightarrow> dialog_event \<Rightarrow> image_generator_dialog \<Rightarrow> image_generator_dialog" where
  "handle requests_get str message (SelectModel m) d = d\<lparr>model_combo := m\<rparr>"
| "handle requests_get str message (EditPrompt p) d = d\<lparr>prompt_input := p\<rparr>"
| "handle requests_get str message (EditAspect a) d = d\<lparr>aspect_input := a\<rparr>"
| "handle requests_get str message (ToggleSafety b) d = d\<lparr>safety_checker := b\<rparr>"
| "handle requests_get str message ClickGenerate d = generate_image d"
| "handle requests_get str message ClickUseLastPrompt d = use_last_prompt d"
| "handle requests_get str message (ClickDownload file_name) d =
     download_image requests_get message file_name d"
| "handle requests_get str message (GenerationFinished output) d =
     on_generation_finished str output d"
| "handle requests_get str message (GenerationError error_msg) d =
     on_generation_error error_msg d"
| "handle requests_get str message (DownloadFinished image_data) d = display_image image_data d"
| "handle requests_get str message (DownloadError e) d = on_preview_error e d"
| "handle requests_get str message ClickClose d = d"
| "handle requests_get str message Resize d = d"

section \<open>A concrete run\<close>

text \<open>
  A detector that knows four texts, an API that answers every request with one choice,
  and the state of the application after start-up with a key and an empty clipboard.
\<close>

definition sample_detect :: "string \<Rightarrow> error + string" where
  "sample_detect text =
     (if text = ''Hello'' \<or> text = ''A B C D E.'' \<or> text = ''A B C.'' then Inr ''en''
      else if text = ''Ol'' @ [CHR 0xE1] then Inr ''pt''
      else if text = ''Bonjour'' then Inr ''fr''
      else Inl (Raised ''No features in text.''))"

fun sample_str_of :: "error \<Rightarrow> string" where
  "sample_str_of (Raised msg) = msg"
| "sample_str_of (KeyError k) = [CHR 0x27] @ k @ [CHR 0x27]"
| "sample_str_of IndexError = ''list index out of range''"
| "sample_str_of e = []"

fun sample_str :: "pyval \<Rightarrow> string" where
  "sample_str (PyStr u) = u"
| "sample_str v = ''None''"

definition sample_response :: "string \<Rightarrow> error + response" where
  "sample_response text = Inr (Response [Choice (Some text)])"

definition sample_env :: "(error + response) \<Rightarrow> env" where
  "sample_env answer =
     \<lparr>detect = (\<lambda>n. sample_detect), paste_error = None, copy_error = None,
      OpenAI = (\<lambda>key. None), create = (\<lambda>key request. answer), str_of = sample_str_of,
      markdown = Inr, get_text = (''sk-test'', True)\<rparr>"

definition sample_app :: "pyval \<Rightarrow> string \<Rightarrow> app" where
  "sample_app key clip =
     \<lparr>api_key = key, current_dialog = False, clipboard = clip, config_file = None,
      events = [], detect_calls = 0\<rparr>"

text \<open>
  An image service that returns two URLs for one model, a single URL for the other and fails
  otherwise; an image download that always fails; and a dialog in the middle of a generation.
\<close>

definition sample_replicate :: "job \<Rightarrow> error + pyval" where
  "sample_replicate j =
     (if model j = ''black-forest-labs/flux-dev''
      then Inr (PyList [PyStr ''https://img.example/1.png'', PyStr ''https://img.example/2.png''])
      else if model j = ''black-forest-labs/flux-pro'' then Inr (PyStr ''https://img.example/3.png'')
      else Inl (Raised ''model not found''))"

definition sample_requests_get :: "string \<Rightarrow> error + string" where
  "sample_requests_get url = Inl (Raised ''404 Client Error'')"

definition sample_job :: "string \<Rightarrow> job" where
  "sample_job m = \<lparr>model = m, prompt = ''a cat'', aspect_ratio = ''16:9'', disable_safety = False\<rparr>"

definition sample_dialog :: image_generator_dialog where
  "sample_dialog =
     init_dialog\<lparr>prompt_input := ''a dog'', output_url := ''https://img.example/0.png'',
                  last_prompt := ''a cat'', generate_button := False\<rparr>"

section \<open>The prompt sent to the completion API\<close>

lemma prompts_lookup:
  "map_of prompts option = map_option (\<lambda>text. base_instruction @ text) (map_of instructions option)"
  unfolding prompts_def by (simp add: map_of_map)

lemma instructions_keys: "map fst instructions = operations"
  unfolding instructions_def operations_def by simp

lemma instructions_defined:
  assumes "option \<in> set operations"
  shows "\<exists>text. map_of instructions option = Some text"
proof -
  from assms have "option \<in> fst ` set instructions"
    using instructions_keys by (metis set_map)
  then have "map_of instructions option \<noteq> None"
    by (simp add: map_of_eq_None_iff)
  then show ?thesis by blast
qed

lemma call_openai_api_sends:
  assumes "OpenAI E (api_key s) = None" and "map_of prompts option = Some p"
  shows "events (snd (call_openai_api E option input_text s)) =
           events s @ [ChatCompletionsCreate (api_key s)
             (completion_request (full_prompt p
                (detect_language (detect E (detect_calls s)) input_text) input_text))]"
  using assms
  by (simp add: call_openai_api_def detect_language_call_def emit_def Let_def split: sum.splits)

text \<open>
  Claim C1. For each of the nine operations and every input text, the user message of the one
  request \<open>call_openai_api\<close> sends is the language-preservation preamble
  \<open>base_instruction\<close>, then the operation's own instruction text from the \<open>prompts\<close>
  table, then the line naming the language detected for the input, then the input text: the
  preamble and the instruction are there verbatim and the language label follows them.
\<close>

theorem prompt_contains_preamble_instruction_language:
  assumes "option \<in> set operations" and "OpenAI E (api_key s) = None"
  shows "\<exists>text. map_of instructions option = Some text \<and>
           events (snd (call_openai_api E option input_text s)) =
             events s @ [ChatCompletionsCreate (api_key s)
               (ChatRequest ''gpt-4o-mini''
                  [(''system'', system_instruction),
                   (''user'', base_instruction @ text @ ''\<newline>\<newline>Input text language: '' @
                      detect_language (detect E (detect_calls s)) input_text @
                      ''\<newline>\<newline>'' @ input_text)])]"
proof -
  from assms(1) obtain instr where t: "map_of instructions option = Some instr"
    using instructions_defined by blast
  then have "map_of prompts option = Some (base_instruction @ instr)"
    by (simp add: prompts_lookup)
  from call_openai_api_sends [OF assms(2) this] t show ?thesis
    by (simp add: completion_request_def full_prompt_def)
qed

theorem prompt_contains_preamble_instruction_language_witness:
  "''Summary'' \<in> set operations \<and>
   (\<exists>instr. map_of instructions ''Summary'' = Some instr \<and>
      events (snd (call_openai_api (sample_env (sample_response ''A B C.'')) ''Summary''
                ''A B C D E.'' (sample_app (PyStr ''sk-test'') ''A B C D E.''))) =
        [ChatCompletionsCreate (PyStr ''sk-test'')
           (ChatRequest ''gpt-4o-mini''
              [(''system'', system_instruction),
               (''user'', base_instruction @ instr @
                  ''\<newline>\<newline>Input text language: English\<newline>\<newline>A B C D E.'')])])"
  using prompt_contains_preamble_instruction_language
    [of "''Summary''" "sample_env (sample_response ''A B C.'')"
        "sample_app (PyStr ''sk-test'') ''A B C D E.''" "''A B C D E.''"]
  by (simp add: operations_def sample_env_def sample_app_def detect_language_def
        sample_detect_def)

section \<open>Language labels\<close>

text \<open>
  Claim C2, as the code has it: \<open>detect_language\<close> maps the detector's code \<open>pt\<close> to
  "Portuguese (European)", \<open>en\<close> to "English", any other code \<open>c\<close> to "Other (c)", with a
  space before the parenthesis, and every failure of the detector to "Unknown".
\<close>

theorem detect_language_labels:
  "(d text = Inr ''pt'' \<longrightarrow> detect_language d text = ''Portuguese (European)'') \<and>
   (d text = Inr ''en'' \<longrightarrow> detect_language d text = ''English'') \<and>
   (d text = Inr c \<and> c \<noteq> ''pt'' \<and> c \<noteq> ''en'' \<longrightarrow>
      detect_language d text = ''Other ('' @ c @ '')'') \<and>
   (d text = Inl e \<longrightarrow> detect_language d text = ''Unknown'')"
  by (simp add: detect_language_def)

theorem detect_language_labels_witness:
  "detect_language sample_detect (''Ol'' @ [CHR 0xE1]) = ''Portuguese (European)'' \<and>
   detect_language sample_detect ''Hello'' = ''English'' \<and>
   detect_language sample_detect ''Bonjour'' = ''Other (fr)'' \<and>
   detect_language sample_detect [] = ''Unknown''"
  using detect_language_labels [of sample_detect "''Ol'' @ [CHR 0xE1]"]
    detect_language_labels [of sample_detect "''Hello''"]
    detect_language_labels [of sample_detect "''Bonjour''" "''fr''"]
    detect_language_labels [of sample_detect "[]" _ "Raised ''No features in text.''"]
  by (simp add: sample_detect_def)

text \<open>
  The label for another code is not the "Other(c)" of the claim: for the code \<open>fr\<close> it is
  "Other (fr)".
\<close>

theorem detect_language_other_counterexample:
  "sample_detect ''Bonjour'' = Inr ''fr'' \<and>
   detect_language sample_detect ''Bonjour'' = ''Other (fr)'' \<and>
   detect_language sample_detect ''Bonjour'' \<noteq> ''Other(fr)''"
  by (simp add: detect_language_def sample_detect_def)

section \<open>The result of the remote call\<close>

lemma list_all_takeWhile: "list_all P (takeWhile P xs)"
  by (induction xs) simp_all

lemma strip_suffix:
  "dropWhile isspace raw = strip raw @ rev (takeWhile isspace (rev (dropWhile isspace raw)))"
proof -
  let ?ys = "dropWhile isspace raw"
  have "takeWhile isspace (rev ?ys) @ dropWhile isspace (rev ?ys) = rev ?ys"
    by (rule takeWhile_dropWhile_id)
  then have "rev (takeWhile isspace (rev ?ys) @ dropWhile isspace (rev ?ys)) = rev (rev ?ys)"
    by (rule arg_cong)
  then show ?thesis
    by (simp only: rev_append rev_rev_ident strip_def)
qed

lemma strip_decompose:
  "\<exists>pre post. raw = pre @ strip raw @ post \<and> list_all isspace pre \<and> list_all isspace post"
proof -
  let ?pre = "takeWhile isspace raw"
  let ?post = "rev (takeWhile isspace (rev (dropWhile isspace raw)))"
  have "?pre @ dropWhile isspace raw = raw"
    by (rule takeWhile_dropWhile_id)
  with strip_suffix [of raw] have "raw = ?pre @ strip raw @ ?post"
    by simp
  moreover have "list_all isspace ?pre"
    by (rule list_all_takeWhile)
  moreover have "list_all isspace ?post"
    by (simp only: list_all_rev list_all_takeWhile)
  ultimately show ?thesis by blast
qed

lemma strip_ends:
  assumes "strip raw \<noteq> []"
  shows "\<not> isspace (hd (strip raw)) \<and> \<not> isspace (last (strip raw))"
proof -
  let ?ys = "dropWhile isspace raw"
  let ?zs = "dropWhile isspace (rev ?ys)"
  from assms have zs: "?zs \<noteq> []" by (simp add: strip_def)
  then have "\<not> isspace (hd ?zs)" by (rule hd_dropWhile)
  with zs have l: "\<not> isspace (last (strip raw))"
    by (simp add: strip_def last_rev)
  from zs have "?ys \<noteq> []" by (metis dropWhile.simps(1) rev.simps(1))
  then have h: "\<not> isspace (hd ?ys)" by (rule hd_dropWhile)
  from assms strip_suffix [of raw] have "hd ?ys = hd (strip raw)"
    by (metis hd_append2)
  with h l show ?thesis by simp
qed

text \<open>
  Claim C3. When the API answers the request with a response whose first choice has a text,
  \<open>call_openai_api\<close> returns exactly that text stripped: the text is the result between
  two runs of whitespace, and the result neither begins nor ends with whitespace. The
  response "  foo bar  " gives "foo bar".
\<close>

theorem call_openai_api_returns_trimmed_first_choice:
  assumes "OpenAI E (api_key s) = None"
    and "map_of prompts option = Some p"
    and "create E (api_key s)
           (completion_request (full_prompt p
              (detect_language (detect E (detect_calls s)) input_text) input_text)) =
         Inr (Response (Choice (Some text) # rest))"
  shows "fst (call_openai_api E option input_text s) = Inr (strip text) \<and>
         (\<exists>pre post. text = pre @ strip text @ post \<and>
            list_all isspace pre \<and> list_all isspace post) \<and>
         (strip text = [] \<or>
            (\<not> isspace (hd (strip text)) \<and> \<not> isspace (last (strip text))))"
proof -
  have "fst (call_openai_api E option input_text s) = Inr (strip text)"
    using assms
    by (simp add: call_openai_api_def detect_language_call_def first_choice_text_def Let_def)
  then show ?thesis using strip_decompose strip_ends by blast
qed

lemma prompts_Summary: "\<exists>p. map_of prompts ''Summary'' = Some p"
  by (simp add: prompts_lookup instructions_def)

theorem call_openai_api_returns_trimmed_first_choice_witness:
  "fst (call_openai_api (sample_env (sample_response ''  foo bar  '')) ''Summary'' ''A B C D E.''
         (sample_app (PyStr ''sk-test'') ''A B C D E.'')) = Inr ''foo bar''"
proof -
  obtain p where p: "map_of prompts ''Summary'' = Some p" using prompts_Summary by blast
  have s: "strip ''  foo bar  '' = ''foo bar''" by (simp add: strip_def isspace_def)
  show ?thesis
    using call_openai_api_returns_trimmed_first_choice
      [of "sample_env (sample_response ''  foo bar  '')" "sample_app (PyStr ''sk-test'') ''A B C D E.''"
          "''Summary''" p "''A B C D E.''" "''  foo bar  ''" "[]"] p s
    by (simp add: sample_env_def sample_response_def sample_app_def)
qed


section \<open>Guards of \<open>process_option\<close>\<close>

text \<open>
  Claim C4, as the code has it: while no API key is configured (\<open>self.api_key\<close> is
  \<open>None\<close>, empty or otherwise false), \<open>process_option\<close> does nothing but show one
  message box, so no call to the API is made and the clipboard stays as it is; when the
  input text is not empty the message is the one for the missing key.
\<close>

theorem missing_key_no_network_call:
  assumes "\<not> truthy (api_key s)"
  shows "\<exists>title message.
           process_option E option input_text s = s\<lparr>events := events s @ [Critical title message]\<rparr> \<and>
           (input_text \<noteq> [] \<longrightarrow>
              title = ''API Key Missing'' \<and>
              message = ''Please provide an OpenAI API key to use this feature.'')"
proof (cases "input_text = []")
  case True
  then have "process_option E option input_text s =
      s\<lparr>events := events s @ [Critical ''No Text Selected''
        ''Please select some text before choosing an option.'']\<rparr>"
    by (simp add: process_option_def show_error_message_def emit_def)
  with True show ?thesis by blast
next
  case False
  with assms have "process_option E option input_text s =
      s\<lparr>events := events s @ [Critical ''API Key Missing''
        ''Please provide an OpenAI API key to use this feature.'']\<rparr>"
    by (simp add: process_option_def show_error_message_def emit_def)
  then show ?thesis by blast
qed

theorem missing_key_no_network_call_witness:
  "\<not> truthy (api_key (sample_app PyNone ''Hello'')) \<and>
   process_option (sample_env (sample_response ''A B C.'')) ''Summary'' ''Hello''
       (sample_app PyNone ''Hello'') =
     (sample_app PyNone ''Hello'')
       \<lparr>events := [Critical ''API Key Missing''
                     ''Please provide an OpenAI API key to use this feature.'']\<rparr>"
  using missing_key_no_network_call
    [of "sample_app PyNone ''Hello''" "sample_env (sample_response ''A B C.'')" "''Summary''"
        "''Hello''"]
  by (auto simp add: sample_app_def)

text \<open>
  With empty input and no key the message shown is the one for the missing input, since the
  input is tested first: the message for the missing key is not shown.
\<close>

theorem missing_key_empty_input_counterexample:
  "\<not> truthy (api_key (sample_app PyNone [])) \<and>
   events (process_option (sample_env (sample_response ''A B C.'')) ''Summary'' []
             (sample_app PyNone [])) =
     [Critical ''No Text Selected'' ''Please select some text before choosing an option.'']"
  by (simp add: process_option_def show_error_message_def emit_def sample_app_def)

text \<open>
  Claim C8. With empty input text \<open>process_option\<close> shows the "No Text Selected" message
  and does nothing else: no call to the API, the clipboard as it was. A menu handler gets
  there when the clipboard is empty or cannot be read.
\<close>

theorem empty_input_reports_missing_input:
  "process_option E option [] s =
     s\<lparr>events := events s @
            [Critical ''No Text Selected'' ''Please select some text before choosing an option.'']\<rparr> \<and>
   ((paste_error E \<noteq> None \<or> clipboard s = []) \<longrightarrow>
      on_option E option s =
        s\<lparr>events := events s @
               [Critical ''No Text Selected''
                  ''Please select some text before choosing an option.'']\<rparr>)"
  by (auto simp add: process_option_def on_option_def get_selected_text_def
        show_error_message_def emit_def split: option.splits)

theorem empty_input_reports_missing_input_witness:
  "on_option (sample_env (sample_response ''A B C.'')) ''Summary'' (sample_app (PyStr ''sk-test'') []) =
     (sample_app (PyStr ''sk-test'') [])
       \<lparr>events := [Critical ''No Text Selected''
                     ''Please select some text before choosing an option.'']\<rparr>"
  using empty_input_reports_missing_input
    [of "sample_env (sample_response ''A B C.'')" "''Summary''" "sample_app (PyStr ''sk-test'') []"]
  by (simp add: sample_app_def)

section \<open>After the remote call\<close>

lemma call_openai_api_frame:
  "api_key (snd (call_openai_api E option input_text s)) = api_key s \<and>
   current_dialog (snd (call_openai_api E option input_text s)) = current_dialog s \<and>
   clipboard (snd (call_openai_api E option input_text s)) = clipboard s \<and>
   config_file (snd (call_openai_api E option input_text s)) = config_file s"
  by (simp add: call_openai_api_def detect_language_call_def emit_def Let_def
        split: option.splits sum.splits)

text \<open>
  Claim C5, as the code has it: when \<open>call_openai_api\<close> returns a text, the "Language
  Mismatch" message is shown exactly when the label of the input differs from the label of
  the output, and what follows is the same in both cases. The text is copied to the
  clipboard and shown in the result dialog; only when \<open>pyperclip.copy\<close> raises (the
  clipboard then stays as it was and no dialog is shown) or the text for the dialog cannot
  be built (the text is copied but not shown) is one "Error" message shown instead.
\<close>

theorem language_mismatch_only_warns:
  assumes "input_text \<noteq> []" and "truthy (api_key s)"
    and "call_openai_api E option input_text s = (Inr processed, s1)"
  shows "let input_lang = detect_language (detect E (detect_calls s1)) input_text;
             output_lang = detect_language (detect E (Suc (detect_calls s1))) processed;
             s' = process_option E option input_text s
         in events s' =
              events s1 @
              (if input_lang \<noteq> output_lang
               then [Critical ''Language Mismatch''
                       (''The API response is in a different language. Input: '' @ input_lang @
                        '', Output: '' @ output_lang)]
               else []) @
              (case copy_error E of
                 Some e \<Rightarrow>
                   [Critical ''Error''
                      (''An error occurred while processing the text: '' @ str_of E e)]
               | None \<Rightarrow>
                   [Copy processed] @
                   (if current_dialog s1 then [CloseDialog] else []) @
                   (case result_display E option processed of
                      Inl e \<Rightarrow>
                        [Critical ''Error''
                           (''An error occurred while processing the text: '' @ str_of E e)]
                    | Inr shown \<Rightarrow> [ExecResultDialog shown])) \<and>
            clipboard s' = (case copy_error E of Some e \<Rightarrow> clipboard s | None \<Rightarrow> processed)"
proof -
  from call_openai_api_frame [of E option input_text s] assms(3)
  have "clipboard s1 = clipboard s" by simp
  with assms show ?thesis
    by (simp add: process_option_def detect_language_call_def report_exception_def
          show_error_message_def pyperclip_copy_def show_result_dialog_def emit_def Let_def
          split: option.splits sum.splits)
qed

lemma sample_call:
  "fst (call_openai_api (sample_env (sample_response answer)) ''Summary'' input_text
          (sample_app (PyStr ''sk-test'') clip)) = Inr (strip answer)"
proof -
  obtain p where "map_of prompts ''Summary'' = Some p" using prompts_Summary by blast
  then show ?thesis
    by (simp add: call_openai_api_def detect_language_call_def first_choice_text_def Let_def
          sample_env_def sample_response_def sample_app_def)
qed

lemma sample_call_events:
  "\<exists>request. events (snd (call_openai_api (sample_env (sample_response answer)) ''Summary''
          input_text (sample_app (PyStr ''sk-test'') clip))) =
     [ChatCompletionsCreate (PyStr ''sk-test'') request]"
proof -
  obtain p where "map_of prompts ''Summary'' = Some p" using prompts_Summary by blast
  then show ?thesis
    by (simp add: call_openai_api_def detect_language_call_def emit_def Let_def
          sample_env_def sample_response_def sample_app_def)
qed

theorem language_mismatch_only_warns_witness:
  "(\<exists>request.
      events (process_option (sample_env (sample_response ''A B C.'')) ''Summary'' ''A B C D E.''
                (sample_app (PyStr ''sk-test'') ''A B C D E.'')) =
        [ChatCompletionsCreate (PyStr ''sk-test'') request, Copy ''A B C.'',
         ExecResultDialog (PlainText (''Option: Summary\<newline>\<newline>A B C.\<newline>\<newline>'' @
           ''The processed text has been copied to your clipboard.''))]) \<and>
   clipboard (process_option (sample_env (sample_response ''A B C.'')) ''Summary'' ''A B C D E.''
                (sample_app (PyStr ''sk-test'') ''A B C D E.'')) = ''A B C.'' \<and>
   (\<exists>request.
      events (process_option (sample_env (sample_response ''Bonjour'')) ''Summary'' ''Hello''
                (sample_app (PyStr ''sk-test'') ''Hello'')) =
        [ChatCompletionsCreate (PyStr ''sk-test'') request,
         Critical ''Language Mismatch''
           ''The API response is in a different language. Input: English, Output: Other (fr)'',
         Copy ''Bonjour'',
         ExecResultDialog (PlainText (''Option: Summary\<newline>\<newline>Bonjour\<newline>\<newline>'' @
           ''The processed text has been copied to your clipboard.''))]) \<and>
   clipboard (process_option (sample_env (sample_response ''Bonjour'')) ''Summary'' ''Hello''
                (sample_app (PyStr ''sk-test'') ''Hello'')) = ''Bonjour''"
proof -
  let ?E1 = "sample_env (sample_response ''A B C.'')"
  let ?s1 = "sample_app (PyStr ''sk-test'') ''A B C D E.''"
  let ?E2 = "sample_env (sample_response ''Bonjour'')"
  let ?s2 = "sample_app (PyStr ''sk-test'') ''Hello''"
  have st: "strip ''A B C.'' = ''A B C.''" "strip ''Bonjour'' = ''Bonjour''"
    by (simp_all add: strip_def isspace_def)
  have c1: "call_openai_api ?E1 ''Summary'' ''A B C D E.'' ?s1 =
      (Inr ''A B C.'', snd (call_openai_api ?E1 ''Summary'' ''A B C D E.'' ?s1))"
    using sample_call [of "''A B C.''" "''A B C D E.''" "''A B C D E.''"] st
    by (simp add: prod_eq_iff)
  have c2: "call_openai_api ?E2 ''Summary'' ''Hello'' ?s2 =
      (Inr ''Bonjour'', snd (call_openai_api ?E2 ''Summary'' ''Hello'' ?s2))"
    using sample_call [of "''Bonjour''" "''Hello''" "''Hello''"] st
    by (simp add: prod_eq_iff)
  have d1: "current_dialog (snd (call_openai_api ?E1 ''Summary'' ''A B C D E.'' ?s1)) = False"
    using call_openai_api_frame [of ?E1 "''Summary''" "''A B C D E.''" ?s1]
    by (simp add: sample_app_def)
  have d2: "current_dialog (snd (call_openai_api ?E2 ''Summary'' ''Hello'' ?s2)) = False"
    using call_openai_api_frame [of ?E2 "''Summary''" "''Hello''" ?s2]
    by (simp add: sample_app_def)
  have k: "truthy (api_key ?s1)" "truthy (api_key ?s2)"
    by (simp_all add: sample_app_def)
  have dt: "detect ?E1 = (\<lambda>n. sample_detect)" "detect ?E2 = (\<lambda>n. sample_detect)"
    "copy_error ?E1 = None" "copy_error ?E2 = None"
    by (simp_all add: sample_env_def)
  have l: "detect_language sample_detect ''A B C D E.'' = ''English''"
    "detect_language sample_detect ''A B C.'' = ''English''"
    "detect_language sample_detect ''Hello'' = ''English''"
    "detect_language sample_detect ''Bonjour'' = ''Other (fr)''"
    by (simp_all add: detect_language_def sample_detect_def)
  from language_mismatch_only_warns [OF _ k(1) c1] language_mismatch_only_warns [OF _ k(2) c2]
    sample_call_events [of "''A B C.''" "''A B C D E.''" "''A B C D E.''"]
    sample_call_events [of "''Bonjour''" "''Hello''" "''Hello''"]
  show ?thesis
    by (auto simp add: Let_def d1 d2 dt l result_display_def)
qed

text \<open>
  When the clipboard cannot be written the result is neither copied nor shown: here the call
  succeeds with "Bonjour" for the input "Hello", the labels differ, and after the request the
  only events are the two message boxes; the clipboard still holds "Hello".
\<close>

theorem language_mismatch_copy_raises_counterexample:
  "fst (call_openai_api
          ((sample_env (sample_response ''Bonjour''))\<lparr>copy_error := Some (Raised ''no clipboard'')\<rparr>)
          ''Summary'' ''Hello'' (sample_app (PyStr ''sk-test'') ''Hello'')) = Inr ''Bonjour'' \<and>
   tl (events (process_option
          ((sample_env (sample_response ''Bonjour''))\<lparr>copy_error := Some (Raised ''no clipboard'')\<rparr>)
          ''Summary'' ''Hello'' (sample_app (PyStr ''sk-test'') ''Hello''))) =
     [Critical ''Language Mismatch''
        ''The API response is in a different language. Input: English, Output: Other (fr)'',
      Critical ''Error'' ''An error occurred while processing the text: no clipboard''] \<and>
   clipboard (process_option
          ((sample_env (sample_response ''Bonjour''))\<lparr>copy_error := Some (Raised ''no clipboard'')\<rparr>)
          ''Summary'' ''Hello'' (sample_app (PyStr ''sk-test'') ''Hello'')) = ''Hello''"
proof -
  obtain p where p: "map_of prompts ''Summary'' = Some p" using prompts_Summary by blast
  have st: "strip ''Bonjour'' = ''Bonjour''" by (simp add: strip_def isspace_def)
  have l: "detect_language sample_detect ''Hello'' = ''English''"
    "detect_language sample_detect ''Bonjour'' = ''Other (fr)''"
    by (simp_all add: detect_language_def sample_detect_def)
  show ?thesis
    by (simp add: process_option_def call_openai_api_def detect_language_call_def
          first_choice_text_def report_exception_def show_error_message_def pyperclip_copy_def
          emit_def Let_def sample_env_def sample_response_def sample_app_def p st l)
qed

text \<open>
  Claim C6. When the one call of \<open>chat.completions.create\<close> raises, \<open>process_option\<close>
  ends normally, having made that one call and shown one "Error" message box with the
  exception's text; the clipboard and everything else but the detector's call count are as
  before.
\<close>

theorem transport_error_one_message_no_retry:
  assumes "input_text \<noteq> []" and "truthy (api_key s)"
    and "OpenAI E (api_key s) = None"
    and "map_of prompts option = Some p"
    and "create E (api_key s)
           (completion_request (full_prompt p
              (detect_language (detect E (detect_calls s)) input_text) input_text)) = Inl e"
  shows "process_option E option input_text s =
           s\<lparr>events := events s @
                  [ChatCompletionsCreate (api_key s)
                     (completion_request (full_prompt p
                        (detect_language (detect E (detect_calls s)) input_text) input_text)),
                   Critical ''Error''
                     (''An error occurred while processing the text: '' @ str_of E e)],
              detect_calls := Suc (detect_calls s)\<rparr>"
  using assms
  by (simp add: process_option_def call_openai_api_def detect_language_call_def
        report_exception_def show_error_message_def emit_def Let_def)

theorem transport_error_one_message_no_retry_witness:
  "\<exists>request.
     process_option (sample_env (Inl (Raised ''Connection error.''))) ''Summary'' ''Hello''
       (sample_app (PyStr ''sk-test'') ''Hello'') =
     (sample_app (PyStr ''sk-test'') ''Hello'')
       \<lparr>events := [ChatCompletionsCreate (PyStr ''sk-test'') request,
                   Critical ''Error''
                     ''An error occurred while processing the text: Connection error.''],
        detect_calls := 1\<rparr>"
proof -
  obtain p where p: "map_of prompts ''Summary'' = Some p" using prompts_Summary by blast
  show ?thesis
    using transport_error_one_message_no_retry
      [of "''Hello''" "sample_app (PyStr ''sk-test'') ''Hello''"
          "sample_env (Inl (Raised ''Connection error.''))" "''Summary''" p
          "Raised ''Connection error.''"] p
    by (simp add: sample_env_def sample_app_def)
qed

section \<open>The image generation thread\<close>

text \<open>
  Claim C7. When the image service returns an output, the thread emits \<open>finished\<close> with a
  list of strings: for a list, the \<open>str\<close> of each element in order; for any other value,
  the one-element list of its \<open>str\<close>.
\<close>

theorem run_normalizes_output:
  assumes "replicate_run j = Inr output"
  shows "run replicate_run str message j = Finished (normalize_output str output) \<and>
         (\<forall>urls. output = PyList urls \<longrightarrow> normalize_output str output = map str urls) \<and>
         ((\<forall>urls. output \<noteq> PyList urls) \<longrightarrow> normalize_output str output = [str output])"
  using assms by (cases "output") (simp_all add: run_def normalize_output_def)

theorem run_normalizes_output_witness:
  "run sample_replicate sample_str sample_str_of (sample_job ''black-forest-labs/flux-dev'') =
     Finished [''https://img.example/1.png'', ''https://img.example/2.png''] \<and>
   run sample_replicate sample_str sample_str_of (sample_job ''black-forest-labs/flux-pro'') =
     Finished [''https://img.example/3.png'']"
  using run_normalizes_output
      [of sample_replicate "sample_job ''black-forest-labs/flux-dev''"
          "PyList [PyStr ''https://img.example/1.png'', PyStr ''https://img.example/2.png'']"
          sample_str sample_str_of]
    run_normalizes_output
      [of sample_replicate "sample_job ''black-forest-labs/flux-pro''"
          "PyStr ''https://img.example/3.png''" sample_str sample_str_of]
  by (simp add: sample_replicate_def sample_job_def)

section \<open>The stored API key\<close>

lemma load_after_save:
  assumes "key \<noteq> []"
  shows "load_api_key E (save_api_key (PyStr key) s) =
           Inr ((save_api_key (PyStr key) s)\<lparr>api_key := PyStr key\<rparr>)"
  using assms by (simp add: load_api_key_def read_api_key_def save_api_key_def)

text \<open>
  Claim C9. If there is no configuration file, or the key it stores is the empty string,
  \<open>load_api_key\<close> asks the user for a key; a non-empty key confirmed with OK becomes
  \<open>self.api_key\<close> and is written to the file, a later \<open>load_api_key\<close> finds it there
  without asking again, and in general \<open>load_api_key\<close> after \<open>save_api_key\<close> of a
  non-empty key yields that key.
\<close>

theorem load_api_key_prompts_and_persists:
  assumes "config_file s = None \<or>
           (\<exists>items. config_file s = Some (Json (PyDict items)) \<and>
              map_of items ''api_key'' = Some (PyStr []))"
    and "get_text E = (key, True)" and "key \<noteq> []"
  shows "\<exists>s'. load_api_key E s = Inr s' \<and>
           events s' = events s @ [GetText] \<and>
           api_key s' = PyStr key \<and>
           config_file s' = Some (Json (PyDict [(''api_key'', PyStr key)])) \<and>
           (\<forall>E'. load_api_key E' s' = Inr s') \<and>
           (\<forall>E' s0. load_api_key E' (save_api_key (PyStr key) s0) =
              Inr ((save_api_key (PyStr key) s0)\<lparr>api_key := PyStr key\<rparr>))"
proof -
  let ?s' = "save_api_key (PyStr key) ((emit GetText (s\<lparr>api_key := PyNone\<rparr>))\<lparr>api_key := PyStr key\<rparr>)"
  let ?t' = "save_api_key (PyStr key) ((emit GetText (s\<lparr>api_key := PyStr []\<rparr>))\<lparr>api_key := PyStr key\<rparr>)"
  have same: "?t' = ?s'" by (simp add: save_api_key_def emit_def)
  from assms(1) have "read_api_key (config_file s) = Inr PyNone \<or>
      read_api_key (config_file s) = Inr (PyStr [])"
    by (auto simp add: read_api_key_def)
  with assms(2,3) have l: "load_api_key E s = Inr ?s'"
    by (auto simp add: load_api_key_def Let_def same)
  have "events ?s' = events s @ [GetText]" "api_key ?s' = PyStr key"
    "config_file ?s' = Some (Json (PyDict [(''api_key'', PyStr key)]))"
    by (simp_all add: save_api_key_def emit_def)
  moreover have "\<forall>E'. load_api_key E' ?s' = Inr ?s'"
    using assms(3) by (simp add: load_api_key_def read_api_key_def save_api_key_def emit_def)
  moreover note load_after_save [OF assms(3)] l
  ultimately show ?thesis by blast
qed

theorem load_api_key_prompts_and_persists_witness:
  "load_api_key (sample_env (sample_response ''A B C.'')) (sample_app PyNone []) =
     Inr ((sample_app (PyStr ''sk-test'') [])
            \<lparr>config_file := Some (Json (PyDict [(''api_key'', PyStr ''sk-test'')])),
             events := [GetText]\<rparr>) \<and>
   load_api_key (sample_env (sample_response ''A B C.''))
       ((sample_app PyNone [])\<lparr>config_file := Some (Json (PyDict [(''api_key'', PyStr [])]))\<rparr>) =
     Inr ((sample_app (PyStr ''sk-test'') [])
            \<lparr>config_file := Some (Json (PyDict [(''api_key'', PyStr ''sk-test'')])),
             events := [GetText]\<rparr>)"
proof -
  let ?E = "sample_env (sample_response ''A B C.'')"
  let ?r = "(sample_app (PyStr ''sk-test'') [])
            \<lparr>config_file := Some (Json (PyDict [(''api_key'', PyStr ''sk-test'')])),
             events := [GetText]\<rparr>"
  have g: "get_text ?E = (''sk-test'', True)" by (simp add: sample_env_def)
  have n: "''sk-test'' \<noteq> []" by simp
  have a: "config_file (sample_app PyNone []) = None \<or>
      (\<exists>items. config_file (sample_app PyNone []) = Some (Json (PyDict items)) \<and>
         map_of items ''api_key'' = Some (PyStr []))"
    by (simp add: sample_app_def)
  let ?s = "(sample_app PyNone [])\<lparr>config_file := Some (Json (PyDict [(''api_key'', PyStr [])]))\<rparr>"
  have "config_file ?s = Some (Json (PyDict [(''api_key'', PyStr [])])) \<and>
      map_of [(''api_key'', PyStr [])] ''api_key'' = Some (PyStr [])"
    by simp
  then have b: "config_file ?s = None \<or>
      (\<exists>items. config_file ?s = Some (Json (PyDict items)) \<and>
         map_of items ''api_key'' = Some (PyStr []))"
    by blast
  from load_api_key_prompts_and_persists [OF a g n]
  obtain s1 where s1: "load_api_key ?E (sample_app PyNone []) = Inr s1"
    "events s1 = events (sample_app PyNone []) @ [GetText]" "api_key s1 = PyStr ''sk-test''"
    "config_file s1 = Some (Json (PyDict [(''api_key'', PyStr ''sk-test'')]))"
    by blast
  from load_api_key_prompts_and_persists [OF b g n]
  obtain s2 where s2: "load_api_key ?E ?s = Inr s2"
    "events s2 = events ?s @ [GetText]" "api_key s2 = PyStr ''sk-test''"
    "config_file s2 = Some (Json (PyDict [(''api_key'', PyStr ''sk-test'')]))"
    by blast
  have f1: "current_dialog s1 = False \<and> clipboard s1 = [] \<and> detect_calls s1 = 0"
    using s1(1) by (auto simp add: load_api_key_def read_api_key_def sample_app_def
        save_api_key_def emit_def Let_def g)
  have f2: "current_dialog s2 = False \<and> clipboard s2 = [] \<and> detect_calls s2 = 0"
    using s2(1) by (auto simp add: load_api_key_def read_api_key_def sample_app_def
        save_api_key_def emit_def Let_def g)
  have "s1 = ?r" using s1 f1 by (simp add: sample_app_def)
  moreover have "s2 = ?r" using s2 f2 by (simp add: sample_app_def)
  ultimately show ?thesis using s1(1) s2(1) by simp
qed

section \<open>The image generator dialog\<close>

text \<open>
  Claim C10. \<open>on_generation_error\<close> leaves \<open>last_prompt\<close> and the output URL as they
  were, and changes nothing but the status label, the preview label and whether the
  generate button is enabled. No event of the dialog other than the end of a generation
  changes \<open>last_prompt\<close>, and the end of a generation sets it to the current text of the
  prompt field, also when the list of URLs is empty.
\<close>

theorem generation_error_keeps_last_prompt:
  "last_prompt (on_generation_error error_msg d) = last_prompt d \<and>
   output_url (on_generation_error error_msg d) = output_url d \<and>
   on_generation_error error_msg d =
     d\<lparr>status_label := status_label (on_generation_error error_msg d),
       image_label := image_label (on_generation_error error_msg d),
       generate_button := generate_button (on_generation_error error_msg d)\<rparr> \<and>
   ((\<forall>res. ev \<noteq> GenerationFinished res) \<longrightarrow>
      last_prompt (handle requests_get str message ev d) = last_prompt d) \<and>
   last_prompt (on_generation_finished str res d) = prompt_input d \<and>
   last_prompt (on_generation_finished str (PyList []) d) = prompt_input d"
proof -
  have "(\<forall>res. ev \<noteq> GenerationFinished res) \<longrightarrow>
      last_prompt (handle requests_get str message ev d) = last_prompt d"
    by (cases ev)
      (simp_all add: generate_image_def use_last_prompt_def download_image_def
         on_generation_error_def display_image_def on_preview_error_def split: sum.splits)
  moreover have "last_prompt (on_generation_finished str res d) = prompt_input d" for res
    by (simp add: on_generation_finished_def Let_def split: pyval.splits list.splits)
  ultimately show ?thesis
    by (simp add: on_generation_error_def)
qed

theorem generation_error_keeps_last_prompt_witness:
  "last_prompt (handle sample_requests_get sample_str sample_str_of (GenerationError ''boom'')
     sample_dialog) = ''a cat'' \<and>
   output_url (on_generation_error ''boom'' sample_dialog) = ''https://img.example/0.png'' \<and>
   last_prompt (on_generation_finished sample_str (PyList []) sample_dialog) = ''a dog''"
  using generation_error_keeps_last_prompt
    [of "''boom''" sample_dialog "GenerationError ''boom''" sample_requests_get sample_str
        sample_str_of "PyList []"]
  by (simp add: sample_dialog_def init_dialog_def)

end
